theory Spec2Isabelle
  imports Complex_Main
begin

section \<open>RecoBot: request interpretation and ranking (chatbot.py)\<close>

text \<open>
  A shallow embedding of the interpretation-and-ranking pipeline of \<^verbatim>\<open>chatbot.py\<close>:
  the text normaliser, the year extractor, the filter extractor, the vocabulary store with
  its administrative upsert, the query planner and the result formatter.

  Conventions of the embedding.
  \<^item> A Python \<^verbatim>\<open>str\<close> is a sequence of code points. The embedding covers the texts whose
    code points lie in U+0000..U+00FF (every character of the tables of the source does):
    a \<^typ>\<open>char\<close> stands for the code point of the same number, so \<^term>\<open>length\<close> is
    Python's \<^verbatim>\<open>len\<close>. The character classes below are those of Python 3 on that range.
  \<^item> \<^verbatim>\<open>datetime.now().year\<close> is the parameter \<open>current_year\<close>.
  \<^item> The SQLite store is a record of tables, each a list of rows in the order in which the
    store yields them; statements are taken to execute without \<^verbatim>\<open>sqlite3.Error\<close>.
    SQL \<^verbatim>\<open>REAL\<close> values are read as real numbers and columns hold no \<^verbatim>\<open>NULL\<close>.
\<close>

subsection \<open>Characters and strings\<close>

definition lower_char :: "char \<Rightarrow> char" where
  "lower_char c =
     (let n = (of_char c :: nat) in
      if (65 \<le> n \<and> n \<le> 90) \<or> (192 \<le> n \<and> n \<le> 222 \<and> n \<noteq> 215)
      then char_of (n + 32) else c)"

text \<open>\<^verbatim>\<open>str.lower()\<close>\<close>

definition str_lower :: "string \<Rightarrow> string" where
  "str_lower s = map lower_char s"

text \<open>The class \<^verbatim>\<open>\d\<close> of \<^verbatim>\<open>re\<close>, which is also what \<^verbatim>\<open>int()\<close> reads: the decimal digits.\<close>

definition is_decimal :: "char \<Rightarrow> bool" where
  "is_decimal c = (let n = (of_char c :: nat) in 48 \<le> n \<and> n \<le> 57)"

text \<open>\<^verbatim>\<open>str.isdigit()\<close>: non-empty, and every character a digit (the decimal digits and the
  superscripts U+00B2, U+00B3, U+00B9).\<close>

definition isdigit_char :: "char \<Rightarrow> bool" where
  "isdigit_char c = (let n = (of_char c :: nat) in (48 \<le> n \<and> n \<le> 57) \<or> n = 178 \<or> n = 179 \<or> n = 185)"

definition isdigit :: "string \<Rightarrow> bool" where
  "isdigit s = (s \<noteq> [] \<and> list_all isdigit_char s)"

text \<open>The class \<^verbatim>\<open>\w\<close> of \<^verbatim>\<open>re\<close> on \<^verbatim>\<open>str\<close> patterns: the underscore and every
  alphanumeric character (\<^verbatim>\<open>str.isalnum()\<close>).\<close>

definition is_word_char :: "char \<Rightarrow> bool" where
  "is_word_char c =
     (let n = (of_char c :: nat) in
      (48 \<le> n \<and> n \<le> 57) \<or> (65 \<le> n \<and> n \<le> 90) \<or> n = 95 \<or> (97 \<le> n \<and> n \<le> 122) \<or>
      n = 170 \<or> n = 178 \<or> n = 179 \<or> n = 181 \<or> n = 185 \<or> n = 186 \<or>
      (188 \<le> n \<and> n \<le> 190) \<or> (192 \<le> n \<and> n \<le> 214) \<or> (216 \<le> n \<and> n \<le> 246) \<or>
      (248 \<le> n \<and> n \<le> 255))"

text \<open>\<^verbatim>\<open>s.startswith(p)\<close>\<close>

fun startswith :: "string \<Rightarrow> string \<Rightarrow> bool" where
  "startswith s [] = True"
| "startswith [] (p # ps) = False"
| "startswith (c # cs) (p # ps) = (c = p \<and> startswith cs ps)"

text \<open>\<^verbatim>\<open>keyword in text\<close>: the keyword occurs as a contiguous substring.\<close>

fun str_contains :: "string \<Rightarrow> string \<Rightarrow> bool" where
  "str_contains [] keyword = (keyword = [])"
| "str_contains (c # cs) keyword = (startswith (c # cs) keyword \<or> str_contains cs keyword)"

text \<open>\<^verbatim>\<open>re.findall(r'\b\w+\b', s)\<close>: scanning from the left, each match starts at a word
  character that follows a boundary and takes the whole run of word characters.\<close>

function findall_words :: "string \<Rightarrow> string list" where
  "findall_words [] = []"
| "findall_words (c # cs) =
     (if is_word_char c
      then (c # takeWhile is_word_char cs) # findall_words (dropWhile is_word_char cs)
      else findall_words cs)"
  by pat_completeness auto
termination
  by (relation "measure length") (auto simp: length_dropWhile_le less_Suc_eq_le)

subsection \<open>Stop words and the text normaliser\<close>

definition STOP_WORDS :: "string list" where
  "STOP_WORDS =
  [''le'', ''la'', ''les'', ''un'', ''une'', ''des'', ''ce'', ''ces'', ''sa'', ''ses'', ''son'', ''mes'', ''mon'', ''ma'',
   ''et'', ''ou'', ''mais'', ''donc'', ''car'', ''ni'', ''or'', ''que'', ''qui'', ''quoi'', ''dont'', ''o'' @ [CHR 0xF9],
   ''dans'', ''sur'', ''sous'', ''par'', ''pour'', ''en'', ''vers'', ''avec'', ''sans'', ''de'', [CHR 0xE0],
   ''je'', ''tu'', ''il'', ''elle'', ''nous'', ''vous'', ''ils'', ''elles'', ''on'',
   [CHR 0xEA] @ ''tre'', ''avoir'', ''faire'', ''dire'', ''aller'', ''voir'', ''vouloir'', ''pouvoir'', ''falloir'',
   ''plus'', ''moins'', ''tr'' @ [CHR 0xE8] @ ''s'', ''bien'', ''mal'', ''tout'', ''tous'', ''toute'', ''toutes'',
   ''autre'', ''autres'', ''m'' @ [CHR 0xEA] @ ''me'', ''aussi'', ''alors'', ''donc'', ''apr'' @ [CHR 0xE8] @ ''s'', ''avant'',
   ''oui'', ''non'', ''peut'', [CHR 0xEA] @ ''tre'', ''comme'', ''entre'', ''chaque'', ''sans'', ''puis'',
   ''est'', ''sont'', ''sera'', [CHR 0xE9] @ ''t'' @ [CHR 0xE9], [CHR 0xE9] @ ''tait'', [CHR 0xE9] @ ''taient'', ''soit'', ''suis'', ''sommes'',
   ''film'', ''films'', ''histoire'', ''ann'' @ [CHR 0xE9] @ ''e'', ''ann'' @ [CHR 0xE9] @ ''es'', ''fois'', ''fait'', ''faire'',
   ''cette'', ''cet'', ''ces'', ''celui'', ''celle'', ''ceux'', ''celles'']"

text \<open>The filter shared by both normalisers (the list comprehension of the source).\<close>

definition significant :: "string list \<Rightarrow> string \<Rightarrow> bool" where
  "significant stop word = (length word > 2 \<and> word \<notin> set stop \<and> \<not> isdigit word)"

definition extract_significant_words :: "string \<Rightarrow> string list" where
  "extract_significant_words text =
     (if text = [] then []
      else filter (significant STOP_WORDS) (findall_words (str_lower text)))"

subsection \<open>Year extraction\<close>

text \<open>\<^verbatim>\<open>int(s)\<close> on a string of decimal digits.\<close>

definition digit_value :: "char \<Rightarrow> int" where
  "digit_value c = int (of_char c) - 48"

definition int_of_digits :: "string \<Rightarrow> int" where
  "int_of_digits s = foldl (\<lambda>acc c. 10 * acc + digit_value c) 0 s"

text \<open>A match of \<^verbatim>\<open>prefix(\d{4})\<close> at the head of the text: group 1 when it matches.\<close>

definition match_year_here :: "string \<Rightarrow> string \<Rightarrow> string option" where
  "match_year_here prefix s =
     (if startswith s prefix then
        (let rest = drop (length prefix) s in
         if 4 \<le> length rest \<and> list_all is_decimal (take 4 rest) then Some (take 4 rest) else None)
      else None)"

text \<open>\<^verbatim>\<open>re.search(prefix + r'(\d{4})', text)\<close>: the leftmost match, or \<open>None\<close>.\<close>

fun re_search_year :: "string \<Rightarrow> string \<Rightarrow> string option" where
  "re_search_year prefix [] = None"
| "re_search_year prefix (c # cs) =
     (case match_year_here prefix (c # cs) of
        Some g \<Rightarrow> Some g
      | None \<Rightarrow> re_search_year prefix cs)"

text \<open>The literal prefixes of \<^verbatim>\<open>year_patterns\<close>, each followed by \<^verbatim>\<open>(\d{4})\<close>.\<close>

definition year_patterns :: "string list" where
  "year_patterns = [''de '', ''en '', ''ann'' @ [CHR 0xE9] @ ''e '', '''']"

text \<open>The loop over the patterns.\<close>

fun try_patterns :: "int \<Rightarrow> string list \<Rightarrow> string \<Rightarrow> int option" where
  "try_patterns current_year [] text = None"
| "try_patterns current_year (pattern # rest) text =
     (case re_search_year pattern text of
        Some g \<Rightarrow>
          (let year = int_of_digits g in
           if 1900 \<le> year \<and> year \<le> current_year then Some year
           else try_patterns current_year rest text)
      | None \<Rightarrow> try_patterns current_year rest text)"

definition extract_year :: "int \<Rightarrow> string \<Rightarrow> int option" where
  "extract_year current_year text = try_patterns current_year year_patterns text"

subsection \<open>The store\<close>

text \<open>A row of \<^verbatim>\<open>significant_words (word TEXT PRIMARY KEY, category, subcategory, weight)\<close>.\<close>

record vocabulary_entry =
  word :: string
  category :: string
  subcategory :: string
  weight :: int

text \<open>A row of \<^verbatim>\<open>movies\<close>, with the columns \<^verbatim>\<open>LocalMovieDatabase\<close> creates (the column
  \<^verbatim>\<open>genres\<close> is the field \<open>movie_genres\<close>).\<close>

record movie =
  title :: string
  overview :: string
  release_year :: int
  movie_genres :: string
  vote_average :: real
  vote_count :: int
  popularity :: real

record movie_db =
  movies :: "movie list"
  significant_words :: "vocabulary_entry list"
  stop_words :: "string list"

text \<open>The store right after the three \<^verbatim>\<open>CREATE TABLE IF NOT EXISTS\<close> on a new file.\<close>

definition empty_db :: movie_db where
  "empty_db = \<lparr>movies = [], significant_words = [], stop_words = []\<rparr>"

text \<open>\<^verbatim>\<open>INSERT OR REPLACE INTO significant_words\<close>: the rows that conflict on the primary key
  are deleted, then the new row is inserted.\<close>

definition insert_or_replace :: "vocabulary_entry \<Rightarrow> vocabulary_entry list \<Rightarrow> vocabulary_entry list" where
  "insert_or_replace e table = filter (\<lambda>r. word r \<noteq> word e) table @ [e]"

text \<open>\<^verbatim>\<open>INSERT OR REPLACE INTO stop_words\<close>\<close>

definition insert_or_replace_stop :: "string \<Rightarrow> string list \<Rightarrow> string list" where
  "insert_or_replace_stop w table = filter (\<lambda>r. r \<noteq> w) table @ [w]"

definition GENRE_MAPPING :: "(string \<times> string list) list" where
  "GENRE_MAPPING =
  [(''action'', [''action'', ''combat'', ''explosion'', ''aventure'']),
   (''com'' @ [CHR 0xE9] @ ''die'', [''com'' @ [CHR 0xE9] @ ''die'', ''humour'', ''dr'' @ [CHR 0xF4] @ ''le'', ''rire'']),
   (''drame'', [''drame'', ''dramatique'', [CHR 0xE9] @ ''mouvant'']),
   (''science-fiction'', [''science-fiction'', ''sci-fi'', ''futur'', ''espace'']),
   (''horreur'', [''horreur'', [CHR 0xE9] @ ''pouvante'', ''peur'', ''effrayant'']),
   (''thriller'', [''thriller'', ''suspense'', ''myst'' @ [CHR 0xE8] @ ''re'']),
   (''romance'', [''romance'', ''amour'', ''romantique'']),
   (''animation'', [''animation'', ''anim'' @ [CHR 0xE9], ''dessin anim'' @ [CHR 0xE9]]),
   (''documentaire'', [''documentaire'', ''docu'']),
   (''famille'', [''famille'', ''familial'', ''enfant'', ''jeunesse'']),
   (''guerre'', [''guerre'', ''militaire'', ''bataille'', ''soldat'', ''arm'' @ [CHR 0xE9] @ ''e'', ''combat''])]"

definition THEME_MAPPING :: "(string \<times> string list) list" where
  "THEME_MAPPING =
  [(''voiture'', [''voiture'', ''course'', ''automobile'', ''racing'', ''fast'', ''furious'', ''vitesse'', ''pilote'']),
   (''super-h'' @ [CHR 0xE9] @ ''ros'', [''super-h'' @ [CHR 0xE9] @ ''ros'', ''superh'' @ [CHR 0xE9] @ ''ros'', ''marvel'', ''dc'', ''comics'', ''superman'', ''batman'', ''avengers'']),
   (''sport'', [''sport'', ''football'', ''basketball'', ''tennis'', ''boxe'', ''athl'' @ [CHR 0xE8] @ ''te'', ''champion'']),
   (''guerre'', [''guerre'', ''militaire'', ''bataille'', ''soldat'', ''arm'' @ [CHR 0xE9] @ ''e'', ''combat'']),
   (''fantasy'', [''fantasy'', ''magie'', ''dragon'', ''sorcier'', ''magique'', ''m'' @ [CHR 0xE9] @ ''di'' @ [CHR 0xE9] @ ''val'']),
   (''western'', [''western'', ''cowboy'', ''far west'', ''ranch'', ''sh'' @ [CHR 0xE9] @ ''rif'']),
   (''espionnage'', [''espion'', ''agent secret'', ''cia'', ''mission'', ''infiltration'']),
   (''catastrophe'', [''catastrophe'', ''d'' @ [CHR 0xE9] @ ''sastre'', ''apocalypse'', ''tsunami'', ''tremblement'', ''m'' @ [CHR 0xE9] @ ''t'' @ [CHR 0xE9] @ ''orite'']),
   (''musical'', [''musical'', ''musique'', ''danse'', ''chant'', ''concert'', ''com'' @ [CHR 0xE9] @ ''die musicale'']),
   (''historique'', [''historique'', ''histoire'', ''p'' @ [CHR 0xE9] @ ''riode'', [CHR 0xE9] @ ''poque'', ''biographie''])]"

definition QUALITY_INDICATORS_populaire :: "string list" where
  "QUALITY_INDICATORS_populaire =
     [''populaire'', ''connu'', ''c'' @ [CHR 0xE9] @ ''l'' @ [CHR 0xE8] @ ''bre'', ''succ'' @ [CHR 0xE8] @ ''s'', ''blockbuster'']"

definition QUALITY_INDICATORS_critique :: "string list" where
  "QUALITY_INDICATORS_critique =
     [''acclam'' @ [CHR 0xE9], ''critique'', ''r'' @ [CHR 0xE9] @ ''compense'', ''oscar'', ''c'' @ [CHR 0xE9] @ ''sar'']"

definition QUALITY_INDICATORS_inconnu :: "string list" where
  "QUALITY_INDICATORS_inconnu =
     [''m'' @ [CHR 0xE9] @ ''connu'', ''rare'', ''confidentiel'', ''d'' @ [CHR 0xE9] @ ''couverte'', ''indie'']"

text \<open>\<^verbatim>\<open>words_to_insert\<close>: the genre words with weight 2, then the theme words with weight 1.\<close>

definition words_to_insert :: "vocabulary_entry list" where
  "words_to_insert =
     concat (map (\<lambda>(genre, keywords). map (\<lambda>w. \<lparr>word = w, category = ''genre'', subcategory = genre, weight = 2\<rparr>) keywords) GENRE_MAPPING)
   @ concat (map (\<lambda>(theme, keywords). map (\<lambda>w. \<lparr>word = w, category = ''theme'', subcategory = theme, weight = 1\<rparr>) keywords) THEME_MAPPING)"

text \<open>\<^verbatim>\<open>executemany\<close> runs the upsert once per row, in order.\<close>

definition initialize_significant_words :: "movie_db \<Rightarrow> movie_db" where
  "initialize_significant_words db =
     db\<lparr>significant_words := foldl (\<lambda>table e. insert_or_replace e table) (significant_words db) words_to_insert\<rparr>"

text \<open>The source iterates the set \<^verbatim>\<open>STOP_WORDS\<close> in an order Python does not fix; only
  membership in the table is ever read.\<close>

definition initialize_stop_words :: "movie_db \<Rightarrow> movie_db" where
  "initialize_stop_words db =
     db\<lparr>stop_words := foldl (\<lambda>table w. insert_or_replace_stop w table) (stop_words db) STOP_WORDS\<rparr>"

text \<open>\<^verbatim>\<open>initialize_db\<close>, without the import of the catalogue from the upstream provider.\<close>

definition initialize_db :: "movie_db \<Rightarrow> movie_db" where
  "initialize_db db =
     (let db1 = (if length (significant_words db) = 0 then initialize_significant_words db else db);
          db2 = (if length (stop_words db1) = 0 then initialize_stop_words db1 else db1)
      in db2)"

text \<open>The administrative command \<^verbatim>\<open>add word [mot] [categorie] [sous-categorie]\<close> of \<^verbatim>\<open>main\<close>,
  once its three arguments are split off: the upsert with weight 1.\<close>

definition add_word :: "movie_db \<Rightarrow> string \<Rightarrow> string \<Rightarrow> string \<Rightarrow> movie_db" where
  "add_word db w c s =
     db\<lparr>significant_words :=
          insert_or_replace \<lparr>word = w, category = c, subcategory = s, weight = 1\<rparr> (significant_words db)\<rparr>"

subsection \<open>Vocabulary classifier\<close>

text \<open>The first half of \<^verbatim>\<open>get_significant_words\<close>: the tokens that survive the filter, with the
  stop words read from the store.\<close>

definition filtered_words :: "movie_db \<Rightarrow> string \<Rightarrow> string list" where
  "filtered_words db text =
     filter (significant (stop_words db)) (findall_words (str_lower text))"

text \<open>\<^verbatim>\<open>SELECT ... FROM significant_words WHERE word IN (...)\<close>: the rows of the table whose word
  is among the parameters.\<close>

definition get_significant_words :: "movie_db \<Rightarrow> string \<Rightarrow> vocabulary_entry list" where
  "get_significant_words db text =
     (let fw = filtered_words db text in
      if fw \<noteq> [] then filter (\<lambda>r. word r \<in> set fw) (significant_words db) else [])"

subsection \<open>Filter extractor\<close>

text \<open>The dictionary \<^verbatim>\<open>filters\<close> of \<^verbatim>\<open>analyze_request\<close>.\<close>

record filters =
  genres :: "string list"
  themes :: "string list"
  mood :: "string option"
  period :: "string option"
  year :: "int option"
  rating_min :: "real option"
  sort_by :: string
  "keywords" :: "string list"
  prefer_unknown :: bool
  exclude_genres :: "string list"

definition initial_filters :: filters where
  "initial_filters =
     \<lparr>genres = [], themes = [], mood = None, period = None, year = None, rating_min = None,
      sort_by = ''weighted_score'', keywords = [], prefer_unknown = False, exclude_genres = []\<rparr>"

text \<open>One turn of the loop over \<^verbatim>\<open>significant_words\<close>.\<close>

definition classify_word :: "vocabulary_entry \<Rightarrow> filters \<Rightarrow> filters" where
  "classify_word word_info f =
     (let f1 =
        (if category word_info = ''genre'' then
           (if subcategory word_info \<notin> set (genres f)
            then f\<lparr>genres := genres f @ [subcategory word_info]\<rparr> else f)
         else if category word_info = ''theme'' then
           (if subcategory word_info \<notin> set (themes f)
            then f\<lparr>themes := themes f @ [subcategory word_info]\<rparr> else f)
         else f)
      in f1\<lparr>keywords := keywords f1 @ [word word_info]\<rparr>)"

fun classify_words :: "vocabulary_entry list \<Rightarrow> filters \<Rightarrow> filters" where
  "classify_words [] f = f"
| "classify_words (word_info # rest) f = classify_words rest (classify_word word_info f)"

text \<open>\<^verbatim>\<open>any(keyword in text for keyword in indicators)\<close>\<close>

definition any_keyword_in :: "string list \<Rightarrow> string \<Rightarrow> bool" where
  "any_keyword_in indicators text = list_ex (\<lambda>keyword. str_contains text keyword) indicators"

definition analyze_request :: "int \<Rightarrow> movie_db \<Rightarrow> string \<Rightarrow> filters" where
  "analyze_request current_year db request =
     (let text = str_lower request;
          f0 = initial_filters;
          f1 = (case extract_year current_year text of
                  Some y \<Rightarrow> if y \<noteq> 0 then f0\<lparr>year := Some y\<rparr> else f0
                | None \<Rightarrow> f0);
          f2 = classify_words (get_significant_words db text) f1
      in if any_keyword_in QUALITY_INDICATORS_populaire text then f2\<lparr>sort_by := ''popularity''\<rparr>
         else if any_keyword_in QUALITY_INDICATORS_critique text
           then f2\<lparr>sort_by := ''rating'', rating_min := Some 7.0\<rparr>
         else if any_keyword_in QUALITY_INDICATORS_inconnu text
           then f2\<lparr>prefer_unknown := True, rating_min := Some 6.5\<rparr>
         else f2)"

subsection \<open>Query planner\<close>

datatype column = Genres | Overview | Title

text \<open>The clauses the planner appends to \<^verbatim>\<open>conditions\<close>, each with its bound parameter:
  \<open>LowerLike c p\<close> is \<^verbatim>\<open>LOWER(c) LIKE ?\<close> with parameter \<open>p\<close>, and \<open>AnyOf cs\<close> is the
  parenthesised \<^verbatim>\<open>OR\<close> of the clauses \<open>cs\<close>.\<close>

datatype condition =
    LowerLike column string
  | AnyOf "condition list"
  | ReleaseYearEq int
  | ReleaseYearGe int
  | ReleaseYearLe int
  | VoteAverageGe real

text \<open>\<^verbatim>\<open>THEME_MAPPING.get(theme, [])\<close>\<close>

definition theme_words :: "string \<Rightarrow> string list" where
  "theme_words theme = (case map_of THEME_MAPPING theme of Some ws \<Rightarrow> ws | None \<Rightarrow> [])"

definition substring_pattern :: "string \<Rightarrow> string" where
  "substring_pattern w = ''%'' @ str_lower w @ ''%''"

definition genre_conditions :: "filters \<Rightarrow> condition list" where
  "genre_conditions f = map (\<lambda>genre. LowerLike Genres (substring_pattern genre)) (genres f)"

definition theme_conditions :: "filters \<Rightarrow> condition list" where
  "theme_conditions f =
     concat (map (\<lambda>theme.
       map (\<lambda>w. AnyOf [LowerLike Overview (substring_pattern w), LowerLike Title (substring_pattern w)])
         (theme_words theme)) (themes f))"

text \<open>The list \<^verbatim>\<open>conditions\<close> that \<^verbatim>\<open>search_movies_optimized\<close> assembles. The tests
  \<^verbatim>\<open>if filters['year']\<close> and \<^verbatim>\<open>if filters['rating_min']\<close> are Python truth tests: \<open>None\<close> and
  zero are false.\<close>

definition build_conditions :: "int \<Rightarrow> filters \<Rightarrow> condition list" where
  "build_conditions current_year f =
     (if genres f \<noteq> [] \<and> genre_conditions f \<noteq> [] then [AnyOf (genre_conditions f)] else [])
   @ (if themes f \<noteq> [] \<and> theme_conditions f \<noteq> [] then [AnyOf (theme_conditions f)] else [])
   @ (if year f \<noteq> None \<and> year f \<noteq> Some 0 then [ReleaseYearEq (the (year f))]
      else if period f = Some ''recent'' then [ReleaseYearGe (current_year - 2)]
      else if period f = Some ''classique'' then [ReleaseYearLe (current_year - 20)]
      else [])
   @ (if rating_min f \<noteq> None \<and> rating_min f \<noteq> Some 0 then [VoteAverageGe (the (rating_min f))] else [])"

text \<open>SQLite's \<^verbatim>\<open>LOWER\<close> and the case folding of \<^verbatim>\<open>LIKE\<close> touch the ASCII letters only.\<close>

definition ascii_lower :: "char \<Rightarrow> char" where
  "ascii_lower c = (let n = (of_char c :: nat) in if 65 \<le> n \<and> n \<le> 90 then char_of (n + 32) else c)"

definition sql_lower :: "string \<Rightarrow> string" where
  "sql_lower s = map ascii_lower s"

text \<open>\<^verbatim>\<open>subject LIKE pattern\<close>: \<^verbatim>\<open>%\<close> matches any run of characters, \<^verbatim>\<open>_\<close> any one
  character, any other character itself up to ASCII case.\<close>

fun sql_like :: "string \<Rightarrow> string \<Rightarrow> bool" where
  "sql_like [] subject = (subject = [])"
| "sql_like (p # ps) [] = (p = CHR ''%'' \<and> sql_like ps [])"
| "sql_like (p # ps) (c # cs) =
     (if p = CHR ''%'' then sql_like ps (c # cs) \<or> sql_like (p # ps) cs
      else (p = CHR ''_'' \<or> ascii_lower p = ascii_lower c) \<and> sql_like ps cs)"

definition column_value :: "column \<Rightarrow> 'a movie_scheme \<Rightarrow> string" where
  "column_value c m = (case c of Genres \<Rightarrow> movie_genres m | Overview \<Rightarrow> overview m | Title \<Rightarrow> title m)"

fun holds :: "'a movie_scheme \<Rightarrow> condition \<Rightarrow> bool" where
  "holds m (LowerLike c p) = sql_like p (sql_lower (column_value c m))"
| "holds m (AnyOf cs) = (\<exists>c \<in> set cs. holds m c)"
| "holds m (ReleaseYearEq y) = (release_year m = y)"
| "holds m (ReleaseYearGe y) = (release_year m \<ge> y)"
| "holds m (ReleaseYearLe y) = (release_year m \<le> y)"
| "holds m (VoteAverageGe r) = (vote_average m \<ge> r)"

text \<open>\<^verbatim>\<open>" AND ".join(conditions) if conditions else "1=1"\<close>\<close>

definition where_clause :: "condition list \<Rightarrow> 'a movie_scheme \<Rightarrow> bool" where
  "where_clause conditions m = list_all (holds m) conditions"

text \<open>A row of the result set: \<^verbatim>\<open>SELECT *, (...) as weighted_score\<close>.\<close>

record scored_movie = movie +
  weighted_score :: real

text \<open>The ranking expression
  \<^verbatim>\<open>vote_average * (CAST(vote_count AS FLOAT) / 1000.0) + popularity / 100.0\<close>.\<close>

definition ranking_expression :: "movie \<Rightarrow> real" where
  "ranking_expression m = vote_average m * (real_of_int (vote_count m) / 1000.0) + popularity m / 100.0"

definition select_row :: "movie \<Rightarrow> scored_movie" where
  "select_row m =
     \<lparr>title = title m, overview = overview m, release_year = release_year m,
      movie_genres = movie_genres m, vote_average = vote_average m, vote_count = vote_count m,
      popularity = popularity m, weighted_score = ranking_expression m\<rparr>"

text \<open>The \<^verbatim>\<open>CASE\<close> expression of the \<^verbatim>\<open>ORDER BY\<close>, with \<^verbatim>\<open>filters['sort_by']\<close> bound to both
  parameters.\<close>

definition order_key :: "string \<Rightarrow> scored_movie \<Rightarrow> real" where
  "order_key s r =
     (if s = ''popularity'' then popularity r
      else if s = ''rating'' then vote_average r
      else weighted_score r)"

text \<open>The statement as executed: the rows that satisfy the \<^verbatim>\<open>WHERE\<close> clause, ordered by the
  key descending, the first five. SQL leaves the order of rows with equal keys open; the
  embedding keeps them in table order.\<close>

definition execute_query :: "movie_db \<Rightarrow> condition list \<Rightarrow> string \<Rightarrow> scored_movie list" where
  "execute_query db conditions s =
     take 5 (sort_key (\<lambda>r. - order_key s r)
       (map select_row (filter (where_clause conditions) (movies db))))"

subsection \<open>Result formatter\<close>

datatype pyval = PNone | PInt int | PFloat real | PStr string

datatype py_error = KeyError | IndexError | AttributeError | TypeError | ValueError

type_synonym py_dict = "(string \<times> pyval) list"

text \<open>The objects \<^verbatim>\<open>format_movie_result\<close> may be handed: a \<^verbatim>\<open>sqlite3.Row\<close> (what
  \<^verbatim>\<open>fetchall\<close> yields under \<^verbatim>\<open>row_factory = sqlite3.Row\<close>), which can be subscripted by column
  name and has no method \<^verbatim>\<open>get\<close>, or a \<^verbatim>\<open>dict\<close>.\<close>

datatype movie_obj = SqliteRow py_dict | PyDict py_dict

text \<open>\<^verbatim>\<open>movie[key]\<close>\<close>

definition getitem :: "movie_obj \<Rightarrow> string \<Rightarrow> py_error + pyval" where
  "getitem movie key =
     (case movie of
        SqliteRow cols \<Rightarrow> (case map_of cols key of Some v \<Rightarrow> Inr v | None \<Rightarrow> Inl IndexError)
      | PyDict d \<Rightarrow> (case map_of d key of Some v \<Rightarrow> Inr v | None \<Rightarrow> Inl KeyError))"

text \<open>\<^verbatim>\<open>movie.get(key, default)\<close>\<close>

definition get_default :: "movie_obj \<Rightarrow> string \<Rightarrow> pyval \<Rightarrow> py_error + pyval" where
  "get_default movie key dflt =
     (case movie of
        SqliteRow cols \<Rightarrow> Inl AttributeError
      | PyDict d \<Rightarrow> (case map_of d key of Some v \<Rightarrow> Inr v | None \<Rightarrow> Inr dflt))"

text \<open>The dictionary display inside the \<^verbatim>\<open>try\<close> of \<^verbatim>\<open>format_movie_result\<close>, its items
  evaluated in order; the first exception ends it.\<close>

definition build_movie_result :: "movie_obj \<Rightarrow> py_error + py_dict" where
  "build_movie_result movie =
     (case getitem movie ''title'' of Inl e \<Rightarrow> Inl e | Inr v_titre \<Rightarrow>
      (case getitem movie ''release_year'' of Inl e \<Rightarrow> Inl e | Inr v_annee \<Rightarrow>
      (case getitem movie ''genres'' of Inl e \<Rightarrow> Inl e | Inr v_genre \<Rightarrow>
      (case getitem movie ''vote_average'' of Inl e \<Rightarrow> Inl e | Inr v_note \<Rightarrow>
      (case getitem movie ''vote_count'' of Inl e \<Rightarrow> Inl e | Inr v_vote_count \<Rightarrow>
      (case get_default movie ''popularity'' (PInt 0) of Inl e \<Rightarrow> Inl e | Inr v_popularite \<Rightarrow>
      (case getitem movie ''overview'' of Inl e \<Rightarrow> Inl e | Inr v_description \<Rightarrow>
      (case get_default movie ''weighted_score'' v_note of Inl e \<Rightarrow> Inl e | Inr v_weighted_score \<Rightarrow>
      Inr [(''titre'', v_titre),
           (''ann'' @ [CHR 0xE9] @ ''e'', v_annee),
           (''genre'', v_genre),
           (''note'', v_note),
           (''vote_count'', v_vote_count),
           (''popularit'' @ [CHR 0xE9], v_popularite),
           (''description'', v_description),
           (''weighted_score'', v_weighted_score)]))))))))"

text \<open>\<^verbatim>\<open>except Exception\<close>: whatever was raised, the result is \<^verbatim>\<open>None\<close>.\<close>

definition format_movie_result :: "movie_obj \<Rightarrow> py_dict option" where
  "format_movie_result movie = (case build_movie_result movie of Inl e \<Rightarrow> None | Inr d \<Rightarrow> Some d)"

text \<open>The list comprehension \<^verbatim>\<open>[format_movie_result(movie) for movie in movies]\<close>.\<close>

definition format_batch :: "movie_obj list \<Rightarrow> py_dict option list" where
  "format_batch movies_found = map format_movie_result movies_found"

text \<open>A fetched row as the \<^verbatim>\<open>sqlite3.Row\<close> it is.\<close>

definition row_object :: "scored_movie \<Rightarrow> movie_obj" where
  "row_object r =
     SqliteRow [(''title'', PStr (title r)), (''overview'', PStr (overview r)),
                (''release_year'', PInt (release_year r)), (''genres'', PStr (movie_genres r)),
                (''vote_average'', PFloat (vote_average r)), (''vote_count'', PInt (vote_count r)),
                (''popularity'', PFloat (popularity r)), (''weighted_score'', PFloat (weighted_score r))]"

definition search_movies_optimized :: "int \<Rightarrow> movie_db \<Rightarrow> filters \<Rightarrow> py_dict option list" where
  "search_movies_optimized current_year db f =
     (let movies_found = execute_query db (build_conditions current_year f) (sort_by f) in
      if movies_found \<noteq> [] then format_batch (map row_object movies_found) else [])"

subsection \<open>Response generation\<close>

text \<open>The two lines under \<^verbatim>\<open># Limiter la description a 200 caracteres\<close>.\<close>

definition truncate_description :: "string \<Rightarrow> string" where
  "truncate_description description =
     (if length description > 200 then take 197 description @ ''...'' else description)"

text \<open>What \<^verbatim>\<open>generate_response\<close> writes for one film. The values it interpolates unchanged are
  kept as values (their rendering as text is not modelled); the description is the string
  it prints.\<close>

record shown_movie =
  shown_titre :: pyval
  shown_annee :: pyval
  shown_genre :: pyval
  shown_note :: pyval
  shown_vote_count :: pyval
  shown_weighted_score :: pyval
  shown_popularite :: pyval
  shown_description :: string

text \<open>\<^verbatim>\<open>movie[key]\<close> on an entry of \<^verbatim>\<open>movies_info\<close>: \<^verbatim>\<open>None\<close> cannot be subscripted.\<close>

definition result_item :: "py_dict option \<Rightarrow> string \<Rightarrow> py_error + pyval" where
  "result_item movie key =
     (case movie of
        None \<Rightarrow> Inl TypeError
      | Some d \<Rightarrow> (case map_of d key of Some v \<Rightarrow> Inr v | None \<Rightarrow> Inl KeyError))"

text \<open>The format specification \<^verbatim>\<open>:.1f\<close> accepts numbers only.\<close>

definition format_1f :: "pyval \<Rightarrow> py_error + pyval" where
  "format_1f v =
     (case v of PInt i \<Rightarrow> Inr v | PFloat x \<Rightarrow> Inr v | PNone \<Rightarrow> Inl TypeError | PStr s \<Rightarrow> Inl ValueError)"

text \<open>\<^verbatim>\<open>len(description)\<close> and the truncation: only a string has a length here.\<close>

definition limit_description :: "pyval \<Rightarrow> py_error + string" where
  "limit_description v =
     (case v of PStr description \<Rightarrow> Inr (truncate_description description) | _ \<Rightarrow> Inl TypeError)"

text \<open>The body of the loop over \<^verbatim>\<open>movies_info\<close>.\<close>

definition show_movie :: "py_dict option \<Rightarrow> py_error + shown_movie" where
  "show_movie movie =
     (case result_item movie ''titre'' of Inl e \<Rightarrow> Inl e | Inr v_titre \<Rightarrow>
      (case result_item movie (''ann'' @ [CHR 0xE9] @ ''e'') of Inl e \<Rightarrow> Inl e | Inr v_annee \<Rightarrow>
      (case result_item movie ''genre'' of Inl e \<Rightarrow> Inl e | Inr v_genre \<Rightarrow>
      (case result_item movie ''note'' of Inl e \<Rightarrow> Inl e | Inr v_note \<Rightarrow>
      (case result_item movie ''vote_count'' of Inl e \<Rightarrow> Inl e | Inr v_vote_count \<Rightarrow>
      (case result_item movie ''weighted_score'' of Inl e \<Rightarrow> Inl e | Inr v_score \<Rightarrow>
      (case format_1f v_score of Inl e \<Rightarrow> Inl e | Inr v_weighted_score \<Rightarrow>
      (case result_item movie (''popularit'' @ [CHR 0xE9]) of Inl e \<Rightarrow> Inl e | Inr v_popularite \<Rightarrow>
      (case result_item movie ''description'' of Inl e \<Rightarrow> Inl e | Inr v_description \<Rightarrow>
      (case limit_description v_description of Inl e \<Rightarrow> Inl e | Inr description \<Rightarrow>
      Inr \<lparr>shown_titre = v_titre, shown_annee = v_annee, shown_genre = v_genre, shown_note = v_note,
           shown_vote_count = v_vote_count, shown_weighted_score = v_weighted_score,
           shown_popularite = v_popularite, shown_description = description\<rparr>))))))))))"

fun show_movies :: "py_dict option list \<Rightarrow> py_error + shown_movie list" where
  "show_movies [] = Inr []"
| "show_movies (movie # rest) =
     (case show_movie movie of
        Inl e \<Rightarrow> Inl e
      | Inr b \<Rightarrow> (case show_movies rest of Inl e \<Rightarrow> Inl e | Inr bs \<Rightarrow> Inr (b # bs)))"

text \<open>\<^verbatim>\<open>', '.join(xs)\<close>\<close>

fun join_comma :: "string list \<Rightarrow> string" where
  "join_comma [] = []"
| "join_comma [x] = x"
| "join_comma (x # y # ys) = x @ '', '' @ join_comma (y # ys)"

definition intro :: "filters \<Rightarrow> string" where
  "intro f =
     ''Voici les films que j'' @ [CHR 0x27] @ ''ai trouv'' @ [CHR 0xE9] @ ''s ''
     @ (if genres f \<noteq> [] then ''dans le genre '' @ join_comma (genres f) @ '' '' else [])
     @ (case mood f of Some m \<Rightarrow> (if m \<noteq> [] then ''avec une ambiance '' @ m @ '' '' else []) | None \<Rightarrow> [])
     @ (case period f of Some p \<Rightarrow> (if p \<noteq> [] then ''de p'' @ [CHR 0xE9] @ ''riode '' @ p @ '' '' else []) | None \<Rightarrow> [])
     @ '':'' @ [CHR 0x0A, CHR 0x0A]"

text \<open>The reply: the apology when nothing was found, else the introduction and one block per
  film.\<close>

datatype response = NothingFound | Found string "shown_movie list"

definition generate_response :: "py_dict option list \<Rightarrow> filters \<Rightarrow> py_error + response" where
  "generate_response movies_info f =
     (if movies_info = [] then Inr NothingFound
      else (case show_movies movies_info of
              Inl e \<Rightarrow> Inl e
            | Inr blocks \<Rightarrow> Inr (Found (intro f) blocks)))"

definition chat_with_bot :: "int \<Rightarrow> movie_db \<Rightarrow> string \<Rightarrow> py_error + response" where
  "chat_with_bot current_year db prompt =
     (let f = analyze_request current_year db prompt;
          movies_info = search_movies_optimized current_year db f
      in generate_response movies_info f)"

section \<open>Properties\<close>

subsection \<open>Text normaliser\<close>

text \<open>Every token the tokeniser yields is a non-empty run of word characters.\<close>

lemma findall_words_tokens:
  "w \<in> set (findall_words s) \<Longrightarrow> w \<noteq> [] \<and> list_all is_word_char w"
proof (induction s arbitrary: w rule: findall_words.induct)
  case 1
  then show ?case by simp
next
  case (2 c cs)
  show ?case
  proof (cases "is_word_char c")
    case True
    with 2 show ?thesis
      by (auto simp: list_all_iff dest: set_takeWhileD)
  next
    case False
    with 2 show ?thesis by auto
  qed
qed

lemma significant_iff:
  "significant stop w \<longleftrightarrow> 3 \<le> length w \<and> \<not> isdigit w \<and> w \<notin> set stop"
  by (auto simp: significant_def)

text \<open>
  Claim C4 (text normalisation). For every text, \<^verbatim>\<open>extract_significant_words\<close> (stop words
  from the constant \<^verbatim>\<open>STOP_WORDS\<close>) and the normalising half of \<^verbatim>\<open>get_significant_words\<close> (stop
  words from the store) lower-case the text, take its word-boundary tokens (the runs of
  \<^verbatim>\<open>\w\<close> characters, that is alphanumeric characters and the underscore) and return exactly
  the tokens of length at least 3 that are not purely numeric and not stop words, in order.
  So no returned token has length 2 or less, is purely numeric or is a stop word. Both are
  total functions (nothing is raised), and the empty text yields the empty sequence.
\<close>

theorem normalizer_spec:
  "extract_significant_words text =
     filter (\<lambda>w. 3 \<le> length w \<and> \<not> isdigit w \<and> w \<notin> set STOP_WORDS) (findall_words (str_lower text))
   \<and> filtered_words db text =
     filter (\<lambda>w. 3 \<le> length w \<and> \<not> isdigit w \<and> w \<notin> set (stop_words db)) (findall_words (str_lower text))
   \<and> (\<forall>w \<in> set (extract_significant_words text).
         3 \<le> length w \<and> \<not> isdigit w \<and> w \<notin> set STOP_WORDS \<and> list_all is_word_char w)
   \<and> (\<forall>w \<in> set (filtered_words db text).
         3 \<le> length w \<and> \<not> isdigit w \<and> w \<notin> set (stop_words db) \<and> list_all is_word_char w)
   \<and> extract_significant_words [] = [] \<and> filtered_words db [] = []"
proof -
  have a: "extract_significant_words text =
     filter (\<lambda>w. 3 \<le> length w \<and> \<not> isdigit w \<and> w \<notin> set STOP_WORDS) (findall_words (str_lower text))"
    by (simp add: extract_significant_words_def significant_iff [abs_def] str_lower_def)
  have b: "filtered_words db text =
     filter (\<lambda>w. 3 \<le> length w \<and> \<not> isdigit w \<and> w \<notin> set (stop_words db)) (findall_words (str_lower text))"
    by (simp add: filtered_words_def significant_iff [abs_def])
  have c: "\<forall>w \<in> set (extract_significant_words text).
         3 \<le> length w \<and> \<not> isdigit w \<and> w \<notin> set STOP_WORDS \<and> list_all is_word_char w"
    unfolding a using findall_words_tokens by auto
  have d: "\<forall>w \<in> set (filtered_words db text).
         3 \<le> length w \<and> \<not> isdigit w \<and> w \<notin> set (stop_words db) \<and> list_all is_word_char w"
    unfolding b using findall_words_tokens by auto
  have e: "extract_significant_words [] = [] \<and> filtered_words db [] = []"
    by (simp add: extract_significant_words_def filtered_words_def str_lower_def)
  from a b c d e show ?thesis by blast
qed

theorem normalizer_spec_witness:
  "extract_significant_words ''Le film de 2008 avec Batman'' = [''batman'']
   \<and> 3 \<le> length ''batman'' \<and> \<not> isdigit ''batman'' \<and> ''batman'' \<notin> set STOP_WORDS
   \<and> list_all is_word_char ''batman''"
proof -
  have m: "extract_significant_words ''Le film de 2008 avec Batman'' = [''batman'']"
    by code_simp
  have "\<forall>w \<in> set (extract_significant_words ''Le film de 2008 avec Batman'').
         3 \<le> length w \<and> \<not> isdigit w \<and> w \<notin> set STOP_WORDS \<and> list_all is_word_char w"
    using normalizer_spec [of "''Le film de 2008 avec Batman''" "\<lparr>movies = [], significant_words = [], stop_words = []\<rparr>"]
    by blast
  then have "3 \<le> length ''batman'' \<and> \<not> isdigit ''batman'' \<and> ''batman'' \<notin> set STOP_WORDS
     \<and> list_all is_word_char ''batman''"
    unfolding m by simp
  with m show ?thesis by blast
qed

subsection \<open>Year extraction\<close>

text \<open>A match of \<^verbatim>\<open>re.search\<close> is a real occurrence: the literal prefix followed by four
  decimal digits, which are the group returned.\<close>

lemma startswith_iff: "startswith s p \<longleftrightarrow> (\<exists>r. s = p @ r)"
  by (induction s p rule: startswith.induct) auto

lemma match_year_here_Some:
  assumes "match_year_here p s = Some g"
  shows "length g = 4 \<and> list_all is_decimal g \<and> (\<exists>post. s = p @ g @ post)"
proof -
  from assms have sw: "startswith s p"
    and len: "4 \<le> length (drop (length p) s)"
    and dec: "list_all is_decimal (take 4 (drop (length p) s))"
    and g: "g = take 4 (drop (length p) s)"
    by (auto simp: match_year_here_def Let_def split: if_splits)
  from sw obtain r where r: "s = p @ r" by (auto simp: startswith_iff)
  from g r have g': "g = take 4 r" by simp
  have "s = p @ g @ drop 4 r" unfolding g' r by simp
  moreover from len r have "length g = 4" unfolding g' by simp
  moreover from dec g have "list_all is_decimal g" by simp
  ultimately show ?thesis by blast
qed

lemma re_search_year_Some:
  "re_search_year p s = Some g \<Longrightarrow>
     length g = 4 \<and> list_all is_decimal g \<and> (\<exists>pre post. s = pre @ p @ g @ post)"
proof (induction s)
  case Nil
  then show ?case by simp
next
  case (Cons c cs)
  show ?case
  proof (cases "match_year_here p (c # cs)")
    case None
    with Cons.prems have "re_search_year p cs = Some g" by simp
    from Cons.IH [OF this] obtain pre post where
      "length g = 4" "list_all is_decimal g" "cs = pre @ p @ g @ post" by blast
    then have "c # cs = (c # pre) @ p @ g @ post" by simp
    with \<open>length g = 4\<close> \<open>list_all is_decimal g\<close> show ?thesis by blast
  next
    case (Some h)
    with Cons.prems have "h = g" by simp
    with Some match_year_here_Some [of p "c # cs" g] obtain post where
      "length g = 4" "list_all is_decimal g" "c # cs = p @ g @ post" by blast
    then have "c # cs = [] @ p @ g @ post" by simp
    with \<open>length g = 4\<close> \<open>list_all is_decimal g\<close> show ?thesis by blast
  qed
qed

lemma try_patterns_find:
  "try_patterns cy ps text =
     List.find (\<lambda>y. 1900 \<le> y \<and> y \<le> cy)
       (List.map_filter (\<lambda>p. map_option int_of_digits (re_search_year p text)) ps)"
  by (induction ps) (auto simp: List.map_filter_simps Let_def split: option.splits)

lemma try_patterns_range:
  "try_patterns cy ps text = Some y \<Longrightarrow> 1900 \<le> y \<and> y \<le> cy"
  unfolding try_patterns_find by (auto simp: find_Some_iff)

text \<open>
  Claim C3 (year extraction). For every text, \<^verbatim>\<open>extract_year\<close> tries the four patterns
  \<^verbatim>\<open>de YYYY\<close>, \<^verbatim>\<open>en YYYY\<close>, \<^verbatim>\<open>annee YYYY\<close> (with e acute) and bare \<^verbatim>\<open>YYYY\<close> in that order,
  each pattern contributing its leftmost match (four decimal digits that do occur in the
  text after the pattern's literal), and returns the first of these years \<open>y\<close> with
  \<open>1900 \<le> y \<le> current_year\<close>; when no pattern yields a year in range the result is
  \<open>None\<close>. Hence every extracted year is in range. The text \<^verbatim>\<open>de 1899\<close> yields no year,
  and neither does \<^verbatim>\<open>en 2099\<close> as long as the current year is before 2099.
\<close>

theorem extract_year_spec:
  "extract_year cy text =
     List.find (\<lambda>y. 1900 \<le> y \<and> y \<le> cy)
       (List.map_filter (\<lambda>p. map_option int_of_digits (re_search_year p text))
          [''de '', ''en '', ''ann'' @ [CHR 0xE9] @ ''e '', ''''])
   \<and> (\<forall>y. extract_year cy text = Some y \<longrightarrow> 1900 \<le> y \<and> y \<le> cy)
   \<and> (\<forall>p g. re_search_year p text = Some g \<longrightarrow>
         length g = 4 \<and> list_all is_decimal g \<and> (\<exists>pre post. text = pre @ p @ g @ post))
   \<and> extract_year cy ''de 1899'' = None
   \<and> (cy < 2099 \<longrightarrow> extract_year cy ''en 2099'' = None)"
proof -
  have a: "extract_year cy text =
     List.find (\<lambda>y. 1900 \<le> y \<and> y \<le> cy)
       (List.map_filter (\<lambda>p. map_option int_of_digits (re_search_year p text))
          [''de '', ''en '', ''ann'' @ [CHR 0xE9] @ ''e '', ''''])"
    unfolding extract_year_def try_patterns_find year_patterns_def by simp
  have b: "\<forall>y. extract_year cy text = Some y \<longrightarrow> 1900 \<le> y \<and> y \<le> cy"
    unfolding extract_year_def using try_patterns_range by blast
  have c: "\<forall>p g. re_search_year p text = Some g \<longrightarrow>
         length g = 4 \<and> list_all is_decimal g \<and> (\<exists>pre post. text = pre @ p @ g @ post)"
    using re_search_year_Some by blast
  have d: "extract_year cy ''de 1899'' = None"
    by (simp add: extract_year_def year_patterns_def match_year_here_def is_decimal_def
        int_of_digits_def digit_value_def)
  have e: "cy < 2099 \<longrightarrow> extract_year cy ''en 2099'' = None"
    by (simp add: extract_year_def year_patterns_def match_year_here_def is_decimal_def
        int_of_digits_def digit_value_def)
  from a b c d e show ?thesis by blast
qed

theorem extract_year_spec_witness:
  "extract_year 2026 ''un film de 1999'' = Some 1999 \<and> (1900::int) \<le> 1999 \<and> (1999::int) \<le> 2026
   \<and> re_search_year ''de '' ''un film de 1999'' = Some ''1999''
   \<and> length ''1999'' = 4 \<and> list_all is_decimal ''1999''
   \<and> (2026::int) < 2099 \<and> extract_year 2026 ''en 2099'' = None"
proof -
  have y: "extract_year 2026 ''un film de 1999'' = Some 1999"
    by (simp add: extract_year_def year_patterns_def match_year_here_def is_decimal_def
        int_of_digits_def digit_value_def)
  have r: "re_search_year ''de '' ''un film de 1999'' = Some ''1999''"
    by (simp add: match_year_here_def is_decimal_def)
  have h: "(2026::int) < 2099" by simp
  note t1 = extract_year_spec [of 2026 "''un film de 1999''"]
  from t1 y have "(1900::int) \<le> 1999 \<and> (1999::int) \<le> 2026" by blast
  moreover from t1 r have "length ''1999'' = 4 \<and> list_all is_decimal ''1999''" by blast
  moreover from t1 h have "extract_year 2026 ''en 2099'' = None" by blast
  ultimately show ?thesis using y r h by blast
qed

subsection \<open>Filter extractor: quality signal\<close>

text \<open>The loop over the classified entries touches \<open>genres\<close>, \<open>themes\<close> and \<open>keywords\<close> only.\<close>

lemma classify_word_kept:
  "sort_by (classify_word e f) = sort_by f \<and> rating_min (classify_word e f) = rating_min f
   \<and> prefer_unknown (classify_word e f) = prefer_unknown f \<and> mood (classify_word e f) = mood f
   \<and> period (classify_word e f) = period f \<and> year (classify_word e f) = year f"
  by (simp add: classify_word_def Let_def)

lemma classify_words_kept:
  "sort_by (classify_words es f) = sort_by f \<and> rating_min (classify_words es f) = rating_min f
   \<and> prefer_unknown (classify_words es f) = prefer_unknown f \<and> mood (classify_words es f) = mood f
   \<and> period (classify_words es f) = period f \<and> year (classify_words es f) = year f"
  by (induction es arbitrary: f) (simp_all add: classify_word_kept)

text \<open>The filters before the quality signal is applied.\<close>

lemma analyze_request_cases:
  "analyze_request cy db request =
     (let text = str_lower request;
          f2 = classify_words (get_significant_words db text)
                 (case extract_year cy text of
                    Some y \<Rightarrow> if y \<noteq> 0 then initial_filters\<lparr>year := Some y\<rparr> else initial_filters
                  | None \<Rightarrow> initial_filters)
      in if any_keyword_in QUALITY_INDICATORS_populaire text then f2\<lparr>sort_by := ''popularity''\<rparr>
         else if any_keyword_in QUALITY_INDICATORS_critique text
           then f2\<lparr>sort_by := ''rating'', rating_min := Some 7\<rparr>
         else if any_keyword_in QUALITY_INDICATORS_inconnu text
           then f2\<lparr>prefer_unknown := True, rating_min := Some 6.5\<rparr>
         else f2)"
  by (simp add: analyze_request_def Let_def)

lemma before_signal:
  "sort_by (classify_words es (case yo of
                    Some y \<Rightarrow> if y \<noteq> 0 then initial_filters\<lparr>year := Some y\<rparr> else initial_filters
                  | None \<Rightarrow> initial_filters)) = ''weighted_score''
   \<and> rating_min (classify_words es (case yo of
                    Some y \<Rightarrow> if y \<noteq> 0 then initial_filters\<lparr>year := Some y\<rparr> else initial_filters
                  | None \<Rightarrow> initial_filters)) = None
   \<and> prefer_unknown (classify_words es (case yo of
                    Some y \<Rightarrow> if y \<noteq> 0 then initial_filters\<lparr>year := Some y\<rparr> else initial_filters
                  | None \<Rightarrow> initial_filters)) = False
   \<and> mood (classify_words es (case yo of
                    Some y \<Rightarrow> if y \<noteq> 0 then initial_filters\<lparr>year := Some y\<rparr> else initial_filters
                  | None \<Rightarrow> initial_filters)) = None
   \<and> period (classify_words es (case yo of
                    Some y \<Rightarrow> if y \<noteq> 0 then initial_filters\<lparr>year := Some y\<rparr> else initial_filters
                  | None \<Rightarrow> initial_filters)) = None"
  by (simp add: classify_words_kept initial_filters_def split: option.splits)

lemma startswith_map: "startswith s p \<Longrightarrow> startswith (map f s) (map f p)"
  by (induction s p rule: startswith.induct) auto

lemma str_contains_map: "str_contains s k \<Longrightarrow> str_contains (map f s) (map f k)"
proof (induction s)
  case Nil
  then show ?case by simp
next
  case (Cons c cs)
  from Cons.prems have "startswith (c # cs) k \<or> str_contains cs k" by simp
  then show ?case
  proof
    assume "startswith (c # cs) k"
    then have "startswith (map f (c # cs)) (map f k)" by (rule startswith_map)
    then show ?thesis by simp
  next
    assume "str_contains cs k"
    then have "str_contains (map f cs) (map f k)" by (rule Cons.IH)
    then show ?thesis by simp
  qed
qed

lemma populaire_lower_case: "list_all (\<lambda>k. str_lower k = k) QUALITY_INDICATORS_populaire"
  by (simp add: QUALITY_INDICATORS_populaire_def str_lower_def lower_char_def)

lemma populaire_in_lowered:
  assumes "any_keyword_in QUALITY_INDICATORS_populaire request"
  shows "any_keyword_in QUALITY_INDICATORS_populaire (str_lower request)"
proof -
  from assms obtain k where k: "k \<in> set QUALITY_INDICATORS_populaire" "str_contains request k"
    by (auto simp: any_keyword_in_def list_ex_iff)
  from k(1) populaire_lower_case have "str_lower k = k" by (simp add: list_all_iff)
  moreover from k(2) have "str_contains (str_lower request) (str_lower k)"
    unfolding str_lower_def by (rule str_contains_map)
  ultimately have "str_contains (str_lower request) k" by simp
  with k(1) show ?thesis by (auto simp: any_keyword_in_def list_ex_iff)
qed

text \<open>
  Claim C1 (quality-signal override). For every request, with the indicator words looked
  for in the lower-cased request as \<^verbatim>\<open>analyze_request\<close> does (so in any letter case): if a
  "popular" indicator occurs then \<open>sort_by\<close> is \<^verbatim>\<open>popularity\<close>, whatever other indicators
  occur (and an indicator that occurs in the request as typed occurs in the lower-cased
  request); otherwise, if a "critically acclaimed" indicator occurs then \<open>sort_by\<close> is
  \<^verbatim>\<open>rating\<close> and \<open>rating_min\<close> is 7.0; otherwise, if an "under-the-radar" indicator occurs
  then \<open>prefer_unknown\<close> is true, \<open>rating_min\<close> is 6.5 and \<open>sort_by\<close> stays
  \<^verbatim>\<open>weighted_score\<close>; otherwise \<open>sort_by\<close> is \<^verbatim>\<open>weighted_score\<close> and \<open>rating_min\<close> is unset.
\<close>

theorem quality_signal_priority:
  "(any_keyword_in QUALITY_INDICATORS_populaire (str_lower request) \<longrightarrow>
      sort_by (analyze_request cy db request) = ''popularity'')
   \<and> (any_keyword_in QUALITY_INDICATORS_populaire request \<longrightarrow>
      sort_by (analyze_request cy db request) = ''popularity'')
   \<and> (\<not> any_keyword_in QUALITY_INDICATORS_populaire (str_lower request)
      \<and> any_keyword_in QUALITY_INDICATORS_critique (str_lower request) \<longrightarrow>
      sort_by (analyze_request cy db request) = ''rating''
      \<and> rating_min (analyze_request cy db request) = Some 7.0)
   \<and> (\<not> any_keyword_in QUALITY_INDICATORS_populaire (str_lower request)
      \<and> \<not> any_keyword_in QUALITY_INDICATORS_critique (str_lower request)
      \<and> any_keyword_in QUALITY_INDICATORS_inconnu (str_lower request) \<longrightarrow>
      prefer_unknown (analyze_request cy db request)
      \<and> rating_min (analyze_request cy db request) = Some 6.5
      \<and> sort_by (analyze_request cy db request) = ''weighted_score'')
   \<and> (\<not> any_keyword_in QUALITY_INDICATORS_populaire (str_lower request)
      \<and> \<not> any_keyword_in QUALITY_INDICATORS_critique (str_lower request)
      \<and> \<not> any_keyword_in QUALITY_INDICATORS_inconnu (str_lower request) \<longrightarrow>
      sort_by (analyze_request cy db request) = ''weighted_score''
      \<and> rating_min (analyze_request cy db request) = None)"
  using populaire_in_lowered [of request]
  by (simp add: analyze_request_cases Let_def before_signal)

theorem quality_signal_priority_witness:
  "any_keyword_in QUALITY_INDICATORS_populaire (str_lower (''Un film POPULAIRE et acclam'' @ [CHR 0xE9]))
   \<and> any_keyword_in QUALITY_INDICATORS_critique (str_lower (''Un film POPULAIRE et acclam'' @ [CHR 0xE9]))
   \<and> sort_by (analyze_request 2026 \<lparr>movies = [], significant_words = [], stop_words = []\<rparr>
        (''Un film POPULAIRE et acclam'' @ [CHR 0xE9])) = ''popularity''
   \<and> any_keyword_in QUALITY_INDICATORS_populaire ''un blockbuster rare''
   \<and> sort_by (analyze_request 2026 \<lparr>movies = [], significant_words = [], stop_words = []\<rparr>
        ''un blockbuster rare'') = ''popularity''
   \<and> sort_by (analyze_request 2026 \<lparr>movies = [], significant_words = [], stop_words = []\<rparr>
        ''un film rare avec un oscar'') = ''rating''
   \<and> rating_min (analyze_request 2026 \<lparr>movies = [], significant_words = [], stop_words = []\<rparr>
        ''un film rare avec un oscar'') = Some 7.0
   \<and> prefer_unknown (analyze_request 2026 \<lparr>movies = [], significant_words = [], stop_words = []\<rparr>
        ''un film rare'')
   \<and> rating_min (analyze_request 2026 \<lparr>movies = [], significant_words = [], stop_words = []\<rparr>
        ''un film rare'') = Some 6.5
   \<and> sort_by (analyze_request 2026 \<lparr>movies = [], significant_words = [], stop_words = []\<rparr>
        ''un film rare'') = ''weighted_score''
   \<and> sort_by (analyze_request 2026 \<lparr>movies = [], significant_words = [], stop_words = []\<rparr>
        ''un film'') = ''weighted_score''
   \<and> rating_min (analyze_request 2026 \<lparr>movies = [], significant_words = [], stop_words = []\<rparr>
        ''un film'') = None"
proof -
  have a1: "any_keyword_in QUALITY_INDICATORS_populaire (str_lower (''Un film POPULAIRE et acclam'' @ [CHR 0xE9]))"
    by code_simp
  have a2: "any_keyword_in QUALITY_INDICATORS_critique (str_lower (''Un film POPULAIRE et acclam'' @ [CHR 0xE9]))"
    by code_simp
  have b1: "any_keyword_in QUALITY_INDICATORS_populaire ''un blockbuster rare''"
    by code_simp
  have c1: "\<not> any_keyword_in QUALITY_INDICATORS_populaire (str_lower ''un film rare avec un oscar'')
     \<and> any_keyword_in QUALITY_INDICATORS_critique (str_lower ''un film rare avec un oscar'')"
    by code_simp
  have d1: "\<not> any_keyword_in QUALITY_INDICATORS_populaire (str_lower ''un film rare'')
     \<and> \<not> any_keyword_in QUALITY_INDICATORS_critique (str_lower ''un film rare'')
     \<and> any_keyword_in QUALITY_INDICATORS_inconnu (str_lower ''un film rare'')"
    by code_simp
  have e1: "\<not> any_keyword_in QUALITY_INDICATORS_populaire (str_lower ''un film'')
     \<and> \<not> any_keyword_in QUALITY_INDICATORS_critique (str_lower ''un film'')
     \<and> \<not> any_keyword_in QUALITY_INDICATORS_inconnu (str_lower ''un film'')"
    by code_simp
  note t = quality_signal_priority [of _ 2026 "\<lparr>movies = [], significant_words = [], stop_words = []\<rparr>"]
  from t [of "''Un film POPULAIRE et acclam'' @ [CHR 0xE9]"] a1
  have r1: "sort_by (analyze_request 2026 \<lparr>movies = [], significant_words = [], stop_words = []\<rparr>
        (''Un film POPULAIRE et acclam'' @ [CHR 0xE9])) = ''popularity''" by blast
  from t [of "''un blockbuster rare''"] b1
  have r2: "sort_by (analyze_request 2026 \<lparr>movies = [], significant_words = [], stop_words = []\<rparr>
        ''un blockbuster rare'') = ''popularity''" by blast
  from t [of "''un film rare avec un oscar''"] c1
  have r3: "sort_by (analyze_request 2026 \<lparr>movies = [], significant_words = [], stop_words = []\<rparr>
        ''un film rare avec un oscar'') = ''rating''
   \<and> rating_min (analyze_request 2026 \<lparr>movies = [], significant_words = [], stop_words = []\<rparr>
        ''un film rare avec un oscar'') = Some 7.0" by blast
  from t [of "''un film rare''"] d1
  have r4: "prefer_unknown (analyze_request 2026 \<lparr>movies = [], significant_words = [], stop_words = []\<rparr>
        ''un film rare'')
   \<and> rating_min (analyze_request 2026 \<lparr>movies = [], significant_words = [], stop_words = []\<rparr>
        ''un film rare'') = Some 6.5
   \<and> sort_by (analyze_request 2026 \<lparr>movies = [], significant_words = [], stop_words = []\<rparr>
        ''un film rare'') = ''weighted_score''" by blast
  from t [of "''un film''"] e1
  have r5: "sort_by (analyze_request 2026 \<lparr>movies = [], significant_words = [], stop_words = []\<rparr>
        ''un film'') = ''weighted_score''
   \<and> rating_min (analyze_request 2026 \<lparr>movies = [], significant_words = [], stop_words = []\<rparr>
        ''un film'') = None" by blast
  from a1 a2 b1 r1 r2 r3 r4 r5 show ?thesis by blast
qed

subsection \<open>Filter extractor: mood and period\<close>

text \<open>
  Claim C10 (mood and period are never set). For every request and every state of the
  store, the filters \<^verbatim>\<open>analyze_request\<close> returns have \<open>mood = None\<close> and \<open>period = None\<close>;
  so the conditions the planner builds from them never contain a period clause
  (\<^verbatim>\<open>release_year >= current_year - 2\<close> for \<^verbatim>\<open>recent\<close>, \<^verbatim>\<open>release_year <= current_year - 20\<close>
  for \<^verbatim>\<open>classique\<close>): these are unreachable from the chat pipeline.
\<close>

theorem period_clauses_unreachable:
  "mood (analyze_request cy db request) = None
   \<and> period (analyze_request cy db request) = None
   \<and> (\<forall>c \<in> set (build_conditions cy (analyze_request cy db request)).
         \<forall>y. c \<noteq> ReleaseYearGe y \<and> c \<noteq> ReleaseYearLe y)"
proof -
  have mp: "mood (analyze_request cy db request) = None
     \<and> period (analyze_request cy db request) = None"
    by (simp add: analyze_request_cases Let_def before_signal)
  then have "\<forall>c \<in> set (build_conditions cy (analyze_request cy db request)).
         \<forall>y. c \<noteq> ReleaseYearGe y \<and> c \<noteq> ReleaseYearLe y"
    by (auto simp: build_conditions_def)
  with mp show ?thesis by blast
qed

theorem period_clauses_unreachable_witness:
  "build_conditions 2026
      (analyze_request 2026 \<lparr>movies = [], significant_words = [], stop_words = []\<rparr> ''un film de 1999'')
     = [ReleaseYearEq 1999]
   \<and> ReleaseYearEq 1999 \<noteq> ReleaseYearGe (2026 - 2)
   \<and> ReleaseYearEq 1999 \<noteq> ReleaseYearLe (2026 - 20)
   \<and> period (analyze_request 2026 \<lparr>movies = [], significant_words = [], stop_words = []\<rparr> ''un film de 1999'') = None"
proof -
  have e: "build_conditions 2026
      (analyze_request 2026 \<lparr>movies = [], significant_words = [], stop_words = []\<rparr> ''un film de 1999'')
     = [ReleaseYearEq 1999]"
    by code_simp
  note t = period_clauses_unreachable [of 2026 "\<lparr>movies = [], significant_words = [], stop_words = []\<rparr>" "''un film de 1999''"]
  from t have p: "period (analyze_request 2026 \<lparr>movies = [], significant_words = [], stop_words = []\<rparr> ''un film de 1999'') = None"
    by blast
  from t have "\<forall>c \<in> set (build_conditions 2026
      (analyze_request 2026 \<lparr>movies = [], significant_words = [], stop_words = []\<rparr> ''un film de 1999'')).
         \<forall>y. c \<noteq> ReleaseYearGe y \<and> c \<noteq> ReleaseYearLe y" by blast
  then have "\<forall>y. ReleaseYearEq 1999 \<noteq> ReleaseYearGe y \<and> ReleaseYearEq 1999 \<noteq> ReleaseYearLe y"
    unfolding e by simp
  then have "ReleaseYearEq 1999 \<noteq> ReleaseYearGe (2026 - 2)
   \<and> ReleaseYearEq 1999 \<noteq> ReleaseYearLe (2026 - 20)" by blast
  with e p show ?thesis by blast
qed

end
